theory Spec2Isabelle
  imports Main "HOL-Library.Word"
begin

unbundle bit_operations_syntax

section \<open>The dummy QHY camera library (src/cameras/qhy/dummyqhy.c)\<close>

text \<open>
  The C file has two exported functions. Both work on memory that the caller owns and
  both print to \<open>stderr\<close>. The embedding makes these two effects explicit:
  \<^item> a pointer is the address it holds (a 64-bit word, the \<open>uintptr_t\<close> of an LP64 or
    LLP64 target); \<open>NULL\<close> is address 0;
  \<^item> memory is a byte store, one \<open>uint8_t\<close> per address. A \<open>uint32_t\<close> occupies four
    consecutive bytes, in the byte order of the target, which the C source does not
    fix: it is a parameter of the model. Two pointers may hold the same or
    overlapping addresses, as in C;
  \<^item> every address is storage. That a non-null pointer designates an object that is
    large enough is the caller's obligation in C and is not represented;
  \<^item> a store through a null pointer is the fault \<open>Null_Dereference\<close>, so every guard
    \<open>if (p)\<close> of the source is a branch of the model;
  \<^item> the state carries, next to the memory, the trace of the effects in program
    order: each \<open>fprintf(stderr, ...)\<close> and each store.
\<close>

subsection \<open>Data\<close>

type_synonym addr = "64 word"
type_synonym u8 = "8 word"
type_synonym u32 = "32 word"

datatype byte_order = Little_Endian | Big_Endian

text \<open>
  The three format strings of the file, with the pointer arguments they print:
  \<^item> \<open>"[dummy] handle=%p w=%p h=%p bpp=%p ch=%p imgdata=%p\n"\<close>
  \<^item> \<open>"[dummy] ERROR: imgdata is NULL\n"\<close>
  \<^item> \<open>"[dummy] DummyBufferAddress imgdata=%p\n"\<close>
\<close>

datatype log_line =
    Log_Inputs addr addr addr addr addr addr
  | Log_Imgdata_Null
  | Log_Buffer_Address addr

datatype event =
    Fprintf_stderr log_line
  | Write_u32 addr u32
  | Write_u8 addr u8

datatype fault = Null_Dereference

record state =
  mem :: "addr \<Rightarrow> u8"
  trace :: "event list"

subsection \<open>Primitive effects\<close>

definition fprintf_stderr :: "log_line \<Rightarrow> state \<Rightarrow> state" where
  "fprintf_stderr l s = s\<lparr>trace := trace s @ [Fprintf_stderr l]\<rparr>"

text \<open>The object representation of a \<open>uint32_t\<close>: four bytes in the target's order.\<close>

definition u32_bytes :: "byte_order \<Rightarrow> u32 \<Rightarrow> u8 list" where
  "u32_bytes bo v =
     (case bo of
        Little_Endian \<Rightarrow> [ucast v, ucast (drop_bit 8 v), ucast (drop_bit 16 v), ucast (drop_bit 24 v)]
      | Big_Endian \<Rightarrow> [ucast (drop_bit 24 v), ucast (drop_bit 16 v), ucast (drop_bit 8 v), ucast v])"

definition bytes_u32 :: "byte_order \<Rightarrow> u8 \<Rightarrow> u8 \<Rightarrow> u8 \<Rightarrow> u8 \<Rightarrow> u32" where
  "bytes_u32 bo b0 b1 b2 b3 =
     (case bo of
        Little_Endian \<Rightarrow>
          ucast b0 OR push_bit 8 (ucast b1) OR push_bit 16 (ucast b2) OR push_bit 24 (ucast b3)
      | Big_Endian \<Rightarrow>
          ucast b3 OR push_bit 8 (ucast b2) OR push_bit 16 (ucast b1) OR push_bit 24 (ucast b0))"

fun write_bytes :: "addr \<Rightarrow> u8 list \<Rightarrow> (addr \<Rightarrow> u8) \<Rightarrow> (addr \<Rightarrow> u8)" where
  "write_bytes a [] m = m"
| "write_bytes a (b # bs) m = write_bytes (a + 1) bs (m(a := b))"

text \<open>\<open>*p\<close> read as a \<open>uint32_t\<close>: what the caller finds at a descriptor destination.\<close>

definition load_u32 :: "byte_order \<Rightarrow> (addr \<Rightarrow> u8) \<Rightarrow> addr \<Rightarrow> u32" where
  "load_u32 bo m p = bytes_u32 bo (m p) (m (p + 1)) (m (p + 2)) (m (p + 3))"

text \<open>\<open>*p = v\<close> for a \<open>uint32_t *p\<close>.\<close>

definition store_u32 :: "byte_order \<Rightarrow> addr \<Rightarrow> u32 \<Rightarrow> state \<Rightarrow> fault + state" where
  "store_u32 bo p v s =
     (if p = 0 then Inl Null_Dereference
      else Inr (s\<lparr>mem := write_bytes p (u32_bytes bo v) (mem s),
                 trace := trace s @ [Write_u32 p v]\<rparr>))"

text \<open>\<open>p[i] = v\<close> for a \<open>uint8_t *p\<close> and an \<open>int i\<close>: the byte at address \<open>p + i\<close>.\<close>

definition store_u8_index :: "addr \<Rightarrow> int \<Rightarrow> u8 \<Rightarrow> state \<Rightarrow> fault + state" where
  "store_u8_index p i v s =
     (if p = 0 then Inl Null_Dereference
      else Inr (s\<lparr>mem := (mem s)(p + word_of_int i := v),
                 trace := trace s @ [Write_u8 (p + word_of_int i) v]\<rparr>))"

subsection \<open>The two functions\<close>

text \<open>
  \<^verbatim>\<open>for (int i = 0; i < 32; ++i) imgdata[i] = (uint8_t)(i & 0xFF);\<close>
  The counter stays within 0..32, so the C \<open>int\<close> is modelled by \<open>int\<close>.
\<close>

function fill_loop :: "addr \<Rightarrow> int \<Rightarrow> state \<Rightarrow> fault + state" where
  "fill_loop imgdata i s =
     (if i < 32 then
        (case store_u8_index imgdata i (word_of_int (i AND 0xFF)) s of
           Inl f \<Rightarrow> Inl f
         | Inr s' \<Rightarrow> fill_loop imgdata (i + 1) s')
      else Inr s)"
  by pat_completeness auto
termination
  by (relation "measure (\<lambda>(imgdata, i, s). nat (32 - i))") auto

declare fill_loop.simps [simp del]

text \<open>
  \<^verbatim>\<open>uint32_t DummyGetQHYCCDSingleFrame(void* handle, uint32_t* w, uint32_t* h,
      uint32_t* bpp, uint32_t* ch, uint8_t* imgdata)\<close>
  The result is the fault, or the returned status code with the state after the call.
\<close>

definition DummyGetQHYCCDSingleFrame ::
  "byte_order \<Rightarrow> addr \<Rightarrow> addr \<Rightarrow> addr \<Rightarrow> addr \<Rightarrow> addr \<Rightarrow> addr \<Rightarrow> state \<Rightarrow> fault + (u32 \<times> state)" where
  "DummyGetQHYCCDSingleFrame bo handle w h bpp ch imgdata s0 =
     (let s1 = fprintf_stderr (Log_Inputs handle w h bpp ch imgdata) s0 in
      (case (if w \<noteq> 0 then store_u32 bo w 8 s1 else Inr s1) of Inl f \<Rightarrow> Inl f | Inr s2 \<Rightarrow>
      (case (if h \<noteq> 0 then store_u32 bo h 4 s2 else Inr s2) of Inl f \<Rightarrow> Inl f | Inr s3 \<Rightarrow>
      (case (if bpp \<noteq> 0 then store_u32 bo bpp 8 s3 else Inr s3) of Inl f \<Rightarrow> Inl f | Inr s4 \<Rightarrow>
      (case (if ch \<noteq> 0 then store_u32 bo ch 1 s4 else Inr s4) of Inl f \<Rightarrow> Inl f | Inr s5 \<Rightarrow>
      (if imgdata \<noteq> 0 then
         (case fill_loop imgdata 0 s5 of
            Inl f \<Rightarrow> Inl f
          | Inr s6 \<Rightarrow> Inr (0, s6))
       else Inr (1, fprintf_stderr Log_Imgdata_Null s5)))))))"

text \<open>
  \<^verbatim>\<open>uintptr_t DummyBufferAddress(uint8_t* imgdata)\<close>
  The cast \<open>(uintptr_t)imgdata\<close> yields the address the pointer holds.
\<close>

definition DummyBufferAddress :: "addr \<Rightarrow> state \<Rightarrow> addr \<times> state" where
  "DummyBufferAddress imgdata s =
     (imgdata, fprintf_stderr (Log_Buffer_Address imgdata) s)"

subsection \<open>Notions used to state the properties\<close>

text \<open>The bytes of a \<open>uint32_t\<close> at \<open>p\<close>, and the 32 bytes of the buffer at \<open>p\<close>.\<close>

definition span_u32 :: "addr \<Rightarrow> addr set" where
  "span_u32 p = {p, p + 1, p + 2, p + 3}"

definition span_buf :: "addr \<Rightarrow> addr set" where
  "span_buf p = (\<lambda>k. p + of_nat k) ` {..<32}"

text \<open>The bytes a destination stands for: none when the pointer is null.\<close>

definition dest_u32 :: "addr \<Rightarrow> addr set" where
  "dest_u32 p = (if p = 0 then {} else span_u32 p)"

definition dest_buf :: "addr \<Rightarrow> addr set" where
  "dest_buf p = (if p = 0 then {} else span_buf p)"

definition footprint :: "addr \<Rightarrow> addr \<Rightarrow> addr \<Rightarrow> addr \<Rightarrow> addr \<Rightarrow> addr set" where
  "footprint w h bpp ch imgdata =
     dest_u32 w \<union> dest_u32 h \<union> dest_u32 bpp \<union> dest_u32 ch \<union> dest_buf imgdata"

text \<open>The stores of the four guarded descriptor assignments, in program order.\<close>

definition descriptor_event :: "addr \<Rightarrow> u32 \<Rightarrow> event list" where
  "descriptor_event p v = (if p = 0 then [] else [Write_u32 p v])"

definition descriptor_events :: "addr \<Rightarrow> addr \<Rightarrow> addr \<Rightarrow> addr \<Rightarrow> event list" where
  "descriptor_events w h bpp ch =
     descriptor_event w 8 @ descriptor_event h 4 @ descriptor_event bpp 8 @ descriptor_event ch 1"

text \<open>The 32 stores of the fill loop, in program order.\<close>

definition pattern_events :: "addr \<Rightarrow> event list" where
  "pattern_events imgdata = map (\<lambda>k. Write_u8 (imgdata + of_nat k) (of_nat k)) [0..<32]"

text \<open>The memory after the call, as a function of the memory before.\<close>

definition put_u32 :: "byte_order \<Rightarrow> addr \<Rightarrow> u32 \<Rightarrow> (addr \<Rightarrow> u8) \<Rightarrow> (addr \<Rightarrow> u8)" where
  "put_u32 bo p v m = (if p = 0 then m else write_bytes p (u32_bytes bo v) m)"

definition put_buf :: "addr \<Rightarrow> (addr \<Rightarrow> u8) \<Rightarrow> (addr \<Rightarrow> u8)" where
  "put_buf p m = (if p = 0 then m else write_bytes p (map of_nat [0..<32]) m)"

definition final_mem ::
  "byte_order \<Rightarrow> addr \<Rightarrow> addr \<Rightarrow> addr \<Rightarrow> addr \<Rightarrow> addr \<Rightarrow> (addr \<Rightarrow> u8) \<Rightarrow> (addr \<Rightarrow> u8)" where
  "final_mem bo w h bpp ch imgdata m =
     put_buf imgdata (put_u32 bo ch 1 (put_u32 bo bpp 8 (put_u32 bo h 4 (put_u32 bo w 8 m))))"

text \<open>A state to run the functions on: memory all zero, nothing traced yet.\<close>

definition zero_mem :: "addr \<Rightarrow> u8" where
  "zero_mem a = 0"

definition blank :: state where
  "blank = \<lparr>mem = zero_mem, trace = []\<rparr>"

text \<open>Another one: every byte is \<open>0xFF\<close>, and a line is already on \<open>stderr\<close>.\<close>

definition ones_mem :: "addr \<Rightarrow> u8" where
  "ones_mem a = 0xFF"

definition dirty :: state where
  "dirty = \<lparr>mem = ones_mem, trace = [Fprintf_stderr (Log_Buffer_Address 0)]\<rparr>"

section \<open>Memory lemmas\<close>

text \<open>Encoding and decoding a \<open>uint32_t\<close> are inverse in both byte orders.\<close>

lemma bytes_u32_u32_bytes:
  "u32_bytes bo v = [a, b, c, d] \<Longrightarrow> bytes_u32 bo a b c d = v"
  unfolding u32_bytes_def bytes_u32_def
  apply (cases bo; clarsimp)
   apply (rule bit_word_eqI)
  subgoal for n
    by (cases "n < 8"; cases "n < 16"; cases "n < 24"; auto simp: bit_simps not_less)
  apply (rule bit_word_eqI)
  subgoal for n
    by (cases "n < 8"; cases "n < 16"; cases "n < 24"; auto simp: bit_simps not_less)
  done

lemma length_u32_bytes: "length (u32_bytes bo v) = 4"
  by (cases bo) (simp_all add: u32_bytes_def)

lemma byte_of_index: "(word_of_int (int n AND 0xFF) :: u8) = of_nat n"
proof -
  have "int n AND 0xFF = take_bit 8 (int n)"
    using take_bit_eq_mask [of 8 "int n"] by (simp add: mask_eq_exp_minus_1)
  moreover have "(word_of_int (take_bit 8 (int n)) :: u8) = word_of_int (int n)"
    unfolding word_of_int_eq_iff by simp
  ultimately show ?thesis by simp
qed

text \<open>A run of bytes touches its own addresses only, and fixes what they hold.\<close>

lemma write_bytes_frame:
  "a \<notin> (\<lambda>k. p + of_nat k) ` {..<length bs} \<Longrightarrow> write_bytes p bs m a = m a"
proof (induction bs arbitrary: p m)
  case Nil
  then show ?case by simp
next
  case (Cons b bs)
  have "p \<in> (\<lambda>k. p + of_nat k) ` {..<length (b # bs)}"
    by (rule image_eqI [of _ _ 0]) simp_all
  then have "a \<noteq> p" using Cons.prems by blast
  moreover have "a \<notin> (\<lambda>k. (p + 1) + of_nat k) ` {..<length bs}"
  proof
    assume "a \<in> (\<lambda>k. (p + 1) + of_nat k) ` {..<length bs}"
    then obtain k where "k < length bs" "a = p + 1 + of_nat k" by auto
    then have "a = p + of_nat (Suc k)" "Suc k < length (b # bs)" by simp_all
    with Cons.prems show False by blast
  qed
  ultimately have "write_bytes (p + 1) bs (m(p := b)) a = (m(p := b)) a" and "a \<noteq> p"
    by (simp_all add: Cons.IH)
  then show ?case by simp
qed

lemma write_bytes_indep:
  "a \<in> (\<lambda>k. p + of_nat k) ` {..<length bs} \<Longrightarrow> write_bytes p bs m1 a = write_bytes p bs m2 a"
proof (induction bs arbitrary: p m1 m2)
  case Nil
  then show ?case by simp
next
  case (Cons b bs)
  show ?case
  proof (cases "a \<in> (\<lambda>k. (p + 1) + of_nat k) ` {..<length bs}")
    case True
    then show ?thesis using Cons.IH [of "p + 1"] by simp
  next
    case False
    have "a = p"
    proof -
      from Cons.prems obtain k where k: "k < Suc (length bs)" "a = p + of_nat k" by auto
      show ?thesis
      proof (cases k)
        case 0
        with k show ?thesis by simp
      next
        case (Suc j)
        with k have "j < length bs" "a = p + 1 + of_nat j" by simp_all
        with False show ?thesis by blast
      qed
    qed
    with False show ?thesis by (simp add: write_bytes_frame)
  qed
qed

lemma write_bytes_nth:
  "k < length bs \<Longrightarrow> length bs \<le> 2 ^ 64 \<Longrightarrow> write_bytes p bs m (p + of_nat k) = bs ! k"
proof (induction bs arbitrary: p m k)
  case Nil
  then show ?case by simp
next
  case (Cons b bs)
  show ?case
  proof (cases k)
    case 0
    have "p \<notin> (\<lambda>j. (p + 1) + of_nat j) ` {..<length bs}"
    proof
      assume "p \<in> (\<lambda>j. (p + 1) + of_nat j) ` {..<length bs}"
      then obtain j where j: "j < length bs" "p = p + 1 + of_nat j" by auto
      then have "(of_nat (Suc j) :: addr) = 0" by simp
      moreover have "Suc j < 2 ^ 64" using j Cons.prems by simp
      ultimately show False
        using of_nat_neq_0 [of "Suc j", where 'a = 64] by simp
    qed
    then show ?thesis using 0 by (simp add: write_bytes_frame)
  next
    case (Suc j)
    then have "write_bytes (p + 1) bs (m(p := b)) (p + 1 + of_nat j) = bs ! j"
      using Cons.prems by (intro Cons.IH) simp_all
    then show ?thesis using Suc by (simp add: add.assoc)
  qed
qed

lemma span_u32_image: "span_u32 p = (\<lambda>k. p + of_nat k) ` {..<4}"
proof -
  have "{..<4::nat} = {0, 1, 2, 3}" by auto
  then show ?thesis by (simp add: span_u32_def)
qed

lemma load_store: "load_u32 bo (write_bytes p (u32_bytes bo v) m) p = v"
proof -
  obtain a b c d where bs: "u32_bytes bo v = [a, b, c, d]"
    by (cases bo) (simp_all add: u32_bytes_def)
  have "write_bytes p [a, b, c, d] m (p + of_nat k) = [a, b, c, d] ! k" if "k < 4" for k
    using that by (intro write_bytes_nth) simp_all
  from this [of 0] this [of 1] this [of 2] this [of 3]
  have "load_u32 bo (write_bytes p [a, b, c, d] m) p = bytes_u32 bo a b c d"
    by (simp add: load_u32_def)
  with bs show ?thesis by (simp add: bytes_u32_u32_bytes)
qed


section \<open>The call as a memory transformer\<close>

text \<open>The loop, started at any index up to 32, stores the remaining pattern bytes.\<close>

lemma fill_loop_from:
  assumes "imgdata \<noteq> 0" and "n \<le> 32"
  shows "fill_loop imgdata (int n) s =
           Inr (s\<lparr>mem := write_bytes (imgdata + of_nat n) (map of_nat [n..<32]) (mem s),
                   trace := trace s @ map (\<lambda>k. Write_u8 (imgdata + of_nat k) (of_nat k)) [n..<32]\<rparr>)"
  using assms(2)
proof (induction "32 - n" arbitrary: n s)
  case 0
  then have "n = 32" by simp
  then show ?case by (simp add: fill_loop.simps)
next
  case (Suc d)
  then have n: "n < 32" and d: "d = 32 - Suc n" and le: "Suc n \<le> 32" by simp_all
  define s1 where "s1 = s\<lparr>mem := (mem s)(imgdata + of_nat n := of_nat n),
                            trace := trace s @ [Write_u8 (imgdata + of_nat n) (of_nat n)]\<rparr>"
  have step: "store_u8_index imgdata (int n) (word_of_int (int n AND 0xFF)) s = Inr s1"
    using assms(1) by (simp add: store_u8_index_def s1_def byte_of_index)
  have "fill_loop imgdata (int n) s = fill_loop imgdata (int (Suc n)) s1"
    using n step by (subst fill_loop.simps) (simp add: add.commute)
  also have "\<dots> = Inr (s1\<lparr>mem := write_bytes (imgdata + of_nat (Suc n)) (map of_nat [Suc n..<32]) (mem s1),
                   trace := trace s1 @ map (\<lambda>k. Write_u8 (imgdata + of_nat k) (of_nat k)) [Suc n..<32]\<rparr>)"
    by (rule Suc.hyps(1) [OF d le])
  also have "\<dots> = Inr (s\<lparr>mem := write_bytes (imgdata + of_nat n) (map of_nat [n..<32]) (mem s),
                   trace := trace s @ map (\<lambda>k. Write_u8 (imgdata + of_nat k) (of_nat k)) [n..<32]\<rparr>)"
    using n by (simp add: s1_def upt_conv_Cons [of n 32] ac_simps)
  finally show ?case .
qed

lemma fill_loop_0:
  "imgdata \<noteq> 0 \<Longrightarrow>
   fill_loop imgdata 0 s =
     Inr (s\<lparr>mem := put_buf imgdata (mem s), trace := trace s @ pattern_events imgdata\<rparr>)"
  using fill_loop_from [of imgdata 0 s] by (simp add: put_buf_def pattern_events_def)

lemma guarded_store_u32:
  "(if p \<noteq> 0 then store_u32 bo p v s else Inr s) =
     Inr (s\<lparr>mem := put_u32 bo p v (mem s), trace := trace s @ descriptor_event p v\<rparr>)"
  by (simp add: store_u32_def put_u32_def descriptor_event_def)

lemma DummyGetQHYCCDSingleFrame_eq:
  "DummyGetQHYCCDSingleFrame bo handle w h bpp ch imgdata s =
     Inr (if imgdata = 0 then 1 else 0,
          s\<lparr>mem := final_mem bo w h bpp ch imgdata (mem s),
            trace := trace s @ [Fprintf_stderr (Log_Inputs handle w h bpp ch imgdata)]
                       @ descriptor_events w h bpp ch
                       @ (if imgdata = 0 then [Fprintf_stderr Log_Imgdata_Null]
                          else pattern_events imgdata)\<rparr>)"
  unfolding DummyGetQHYCCDSingleFrame_def Let_def guarded_store_u32
  by (simp add: fill_loop_0 fprintf_stderr_def final_mem_def descriptor_events_def put_buf_def)


text \<open>Each store is an override on its destination bytes.\<close>

lemma put_u32_frame: "a \<notin> dest_u32 p \<Longrightarrow> put_u32 bo p v m a = m a"
  by (cases "p = 0") (simp_all add: put_u32_def dest_u32_def span_u32_image write_bytes_frame length_u32_bytes)

lemma put_u32_indep: "a \<in> dest_u32 p \<Longrightarrow> put_u32 bo p v m1 a = put_u32 bo p v m2 a"
  by (cases "p = 0")
    (simp_all add: put_u32_def dest_u32_def span_u32_image write_bytes_indep length_u32_bytes)

lemma put_buf_frame: "a \<notin> dest_buf p \<Longrightarrow> put_buf p m a = m a"
  by (cases "p = 0") (simp_all add: put_buf_def dest_buf_def span_buf_def write_bytes_frame)

lemma put_buf_indep: "a \<in> dest_buf p \<Longrightarrow> put_buf p m1 a = put_buf p m2 a"
  by (cases "p = 0") (simp_all add: put_buf_def dest_buf_def span_buf_def write_bytes_indep)

lemma put_buf_at: "p \<noteq> 0 \<Longrightarrow> k < 32 \<Longrightarrow> put_buf p m (p + of_nat k) = of_nat k"
  using write_bytes_nth [of k "map of_nat [0..<32]" p m] by (simp add: put_buf_def)

lemma load_put_u32: "p \<noteq> 0 \<Longrightarrow> load_u32 bo (put_u32 bo p v m) p = v"
  by (simp add: put_u32_def load_store)

lemma load_u32_cong: "(\<And>a. a \<in> span_u32 p \<Longrightarrow> m a = m' a) \<Longrightarrow> load_u32 bo m p = load_u32 bo m' p"
  by (simp add: load_u32_def span_u32_def)

lemma final_mem_frame:
  "a \<notin> footprint w h bpp ch imgdata \<Longrightarrow> final_mem bo w h bpp ch imgdata m a = m a"
  by (simp add: footprint_def final_mem_def put_buf_frame put_u32_frame)

lemma final_mem_indep:
  assumes "a \<in> footprint w h bpp ch imgdata"
  shows "final_mem bo w h bpp ch imgdata m1 a = final_mem bo w h bpp ch imgdata m2 a"
proof -
  have u: "put_u32 bo p v x a = put_u32 bo p v y a" if "x a = y a \<or> a \<in> dest_u32 p" for p v x y
    using that by (cases "a \<in> dest_u32 p") (simp_all add: put_u32_indep put_u32_frame)
  have b: "put_buf p x a = put_buf p y a" if "x a = y a \<or> a \<in> dest_buf p" for p x y
    using that by (cases "a \<in> dest_buf p") (simp_all add: put_buf_indep put_buf_frame)
  have "m1 a = m2 a \<or> a \<in> dest_u32 w" if "a \<notin> dest_u32 h" "a \<notin> dest_u32 bpp"
      "a \<notin> dest_u32 ch" "a \<notin> dest_buf imgdata"
    using that assms by (simp add: footprint_def)
  then show ?thesis
    unfolding final_mem_def by (intro b disjCI u) blast
qed

lemma final_mem_idem:
  "final_mem bo w h bpp ch imgdata (final_mem bo w h bpp ch imgdata m) =
   final_mem bo w h bpp ch imgdata m"
proof
  fix a
  show "final_mem bo w h bpp ch imgdata (final_mem bo w h bpp ch imgdata m) a =
        final_mem bo w h bpp ch imgdata m a"
  proof (cases "a \<in> footprint w h bpp ch imgdata")
    case True
    then show ?thesis by (rule final_mem_indep)
  next
    case False
    then show ?thesis by (simp add: final_mem_frame)
  qed
qed

lemma final_mem_buf:
  "imgdata \<noteq> 0 \<Longrightarrow> i < 32 \<Longrightarrow>
   final_mem bo w h bpp ch imgdata m (imgdata + of_nat i) = of_nat i"
  by (simp add: final_mem_def put_buf_at)

text \<open>A descriptor keeps its constant when no later store overlaps it.\<close>

lemma final_mem_w:
  assumes "w \<noteq> 0"
    and "span_u32 w \<inter> (dest_u32 h \<union> dest_u32 bpp \<union> dest_u32 ch \<union> dest_buf imgdata) = {}"
  shows "load_u32 bo (final_mem bo w h bpp ch imgdata m) w = 8"
proof -
  have "final_mem bo w h bpp ch imgdata m a = put_u32 bo w 8 m a" if "a \<in> span_u32 w" for a
  proof -
    from that assms(2) have "a \<notin> dest_u32 ch" "a \<notin> dest_buf imgdata" "a \<notin> dest_u32 h" "a \<notin> dest_u32 bpp"
      by blast+
    then show ?thesis by (simp add: final_mem_def put_buf_frame put_u32_frame)
  qed
  then have "load_u32 bo (final_mem bo w h bpp ch imgdata m) w = load_u32 bo (put_u32 bo w 8 m) w"
    by (rule load_u32_cong)
  then show ?thesis using assms(1) by (simp add: load_put_u32)
qed

lemma final_mem_h:
  assumes "h \<noteq> 0"
    and "span_u32 h \<inter> (dest_u32 bpp \<union> dest_u32 ch \<union> dest_buf imgdata) = {}"
  shows "load_u32 bo (final_mem bo w h bpp ch imgdata m) h = 4"
proof -
  have "final_mem bo w h bpp ch imgdata m a = put_u32 bo h 4 (put_u32 bo w 8 m) a"
    if "a \<in> span_u32 h" for a
  proof -
    from that assms(2) have "a \<notin> dest_u32 ch" "a \<notin> dest_buf imgdata" "a \<notin> dest_u32 bpp"
      by blast+
    then show ?thesis by (simp add: final_mem_def put_buf_frame put_u32_frame)
  qed
  then have "load_u32 bo (final_mem bo w h bpp ch imgdata m) h =
             load_u32 bo (put_u32 bo h 4 (put_u32 bo w 8 m)) h"
    by (rule load_u32_cong)
  then show ?thesis using assms(1) by (simp add: load_put_u32)
qed

lemma final_mem_bpp:
  assumes "bpp \<noteq> 0"
    and "span_u32 bpp \<inter> (dest_u32 ch \<union> dest_buf imgdata) = {}"
  shows "load_u32 bo (final_mem bo w h bpp ch imgdata m) bpp = 8"
proof -
  have "final_mem bo w h bpp ch imgdata m a = put_u32 bo bpp 8 (put_u32 bo h 4 (put_u32 bo w 8 m)) a"
    if "a \<in> span_u32 bpp" for a
  proof -
    from that assms(2) have "a \<notin> dest_u32 ch" "a \<notin> dest_buf imgdata" 
      by blast+
    then show ?thesis by (simp add: final_mem_def put_buf_frame put_u32_frame)
  qed
  then have "load_u32 bo (final_mem bo w h bpp ch imgdata m) bpp =
             load_u32 bo (put_u32 bo bpp 8 (put_u32 bo h 4 (put_u32 bo w 8 m))) bpp"
    by (rule load_u32_cong)
  then show ?thesis using assms(1) by (simp add: load_put_u32)
qed

lemma final_mem_ch:
  assumes "ch \<noteq> 0"
    and "span_u32 ch \<inter> dest_buf imgdata = {}"
  shows "load_u32 bo (final_mem bo w h bpp ch imgdata m) ch = 1"
proof -
  have "final_mem bo w h bpp ch imgdata m a =
        put_u32 bo ch 1 (put_u32 bo bpp 8 (put_u32 bo h 4 (put_u32 bo w 8 m))) a"
    if "a \<in> span_u32 ch" for a
  proof -
    from that assms(2) have "a \<notin> dest_buf imgdata" by blast
    then show ?thesis by (simp add: final_mem_def put_buf_frame)
  qed
  then have "load_u32 bo (final_mem bo w h bpp ch imgdata m) ch =
             load_u32 bo (put_u32 bo ch 1 (put_u32 bo bpp 8 (put_u32 bo h 4 (put_u32 bo w 8 m)))) ch"
    by (rule load_u32_cong)
  then show ?thesis using assms(1) by (simp add: load_put_u32)
qed

text \<open>Membership in the buffer's 32 bytes, decided by unsigned subtraction.\<close>

lemma span_buf_iff: "a \<in> span_buf p \<longleftrightarrow> a - p < 32"
proof
  assume "a \<in> span_buf p"
  then obtain k where k: "k < 32" and a: "a = p + of_nat k" by (auto simp: span_buf_def)
  have "(of_nat k :: addr) < 32"
    using k by (simp add: word_less_nat_alt unat_of_nat)
  with a show "a - p < 32" by simp
next
  assume "a - p < 32"
  then have "unat (a - p) < 32" by (simp add: word_less_nat_alt)
  moreover have "a = p + of_nat (unat (a - p))" by simp
  ultimately show "a \<in> span_buf p" unfolding span_buf_def by blast
qed

text \<open>Every call returns: status code, memory and trace of the state it returns in.\<close>

lemma DummyGetQHYCCDSingleFrame_run:
  obtains s' where
    "DummyGetQHYCCDSingleFrame bo handle w h bpp ch imgdata s =
       Inr (if imgdata = 0 then 1 else 0, s')"
    and "mem s' = final_mem bo w h bpp ch imgdata (mem s)"
    and "trace s' = trace s @ [Fprintf_stderr (Log_Inputs handle w h bpp ch imgdata)]
                      @ descriptor_events w h bpp ch
                      @ (if imgdata = 0 then [Fprintf_stderr Log_Imgdata_Null]
                         else pattern_events imgdata)"
proof -
  let ?s' = "s\<lparr>mem := final_mem bo w h bpp ch imgdata (mem s),
               trace := trace s @ [Fprintf_stderr (Log_Inputs handle w h bpp ch imgdata)]
                      @ descriptor_events w h bpp ch
                      @ (if imgdata = 0 then [Fprintf_stderr Log_Imgdata_Null]
                         else pattern_events imgdata)\<rparr>"
  show thesis
    by (rule that [of ?s']) (simp_all add: DummyGetQHYCCDSingleFrame_eq)
qed

section \<open>Properties of DummyGetQHYCCDSingleFrame and DummyBufferAddress\<close>

subsection \<open>C1: a call with a null buffer\<close>

text \<open>
  C1 as stated: with \<open>imgdata\<close> null the call returns 1 and performs no memory write at
  all, no descriptor destination being modified. The code stores the descriptors before
  it tests \<open>imgdata\<close>: with a non-null \<open>w\<close> and a null \<open>imgdata\<close> the call returns 1, the
  store \<open>*w = 8\<close> is in the trace, and the byte at \<open>w\<close> has changed from 0 to 8.
\<close>

theorem failure_still_writes_descriptor:
  "fst (projr (DummyGetQHYCCDSingleFrame Little_Endian 0 0x1000 0 0 0 0 blank)) = 1 \<and>
   trace (snd (projr (DummyGetQHYCCDSingleFrame Little_Endian 0 0x1000 0 0 0 0 blank))) =
     [Fprintf_stderr (Log_Inputs 0 0x1000 0 0 0 0), Write_u32 0x1000 8,
      Fprintf_stderr Log_Imgdata_Null] \<and>
   mem blank 0x1000 = 0 \<and>
   mem (snd (projr (DummyGetQHYCCDSingleFrame Little_Endian 0 0x1000 0 0 0 0 blank))) 0x1000 = 8"
  by (simp add: DummyGetQHYCCDSingleFrame_def store_u32_def fprintf_stderr_def u32_bytes_def
      blank_def zero_mem_def)

text \<open>
  C1, amended: with \<open>imgdata\<close> null the call returns the failure code 1 and stores no
  buffer byte; memory outside the non-null descriptor destinations is unchanged; and when
  the four descriptor destinations are null as well, the call performs no store and
  leaves the memory as it was.
\<close>

theorem failure_writes_descriptors_only:
  "\<exists>s' evs. DummyGetQHYCCDSingleFrame bo handle w h bpp ch 0 s = Inr (1, s') \<and>
     trace s' = trace s @ evs \<and>
     (\<forall>a v. Write_u8 a v \<notin> set evs) \<and>
     (\<forall>a. a \<notin> dest_u32 w \<union> dest_u32 h \<union> dest_u32 bpp \<union> dest_u32 ch \<longrightarrow> mem s' a = mem s a) \<and>
     (w = 0 \<and> h = 0 \<and> bpp = 0 \<and> ch = 0 \<longrightarrow> mem s' = mem s \<and> (\<forall>p v. Write_u32 p v \<notin> set evs))"
proof -
  define evs where "evs = [Fprintf_stderr (Log_Inputs handle w h bpp ch 0)]
       @ descriptor_events w h bpp ch
       @ (if (0::addr) = 0 then [Fprintf_stderr Log_Imgdata_Null] else pattern_events 0)"
  obtain s' where
    run: "DummyGetQHYCCDSingleFrame bo handle w h bpp ch 0 s =
            Inr (if (0::addr) = 0 then 1 else 0, s')"
    and m: "mem s' = final_mem bo w h bpp ch 0 (mem s)"
    and t: "trace s' = trace s @ evs"
    unfolding evs_def by (rule DummyGetQHYCCDSingleFrame_run)
  have no8: "Write_u8 a v \<notin> set evs" for a v
    by (simp add: evs_def descriptor_events_def descriptor_event_def)
  have frame: "mem s' a = mem s a"
    if "a \<notin> dest_u32 w \<union> dest_u32 h \<union> dest_u32 bpp \<union> dest_u32 ch" for a
    using that by (simp add: m final_mem_frame footprint_def dest_buf_def)
  have "mem s' = mem s \<and> (\<forall>p v. Write_u32 p v \<notin> set evs)"
    if "w = 0 \<and> h = 0 \<and> bpp = 0 \<and> ch = 0"
    using that
    by (simp add: m final_mem_def put_buf_def put_u32_def evs_def descriptor_events_def
        descriptor_event_def)
  moreover from run have "DummyGetQHYCCDSingleFrame bo handle w h bpp ch 0 s = Inr (1, s')"
    by simp
  ultimately show ?thesis using t no8 frame by blast
qed

theorem failure_writes_descriptors_only_witness:
  "fst (projr (DummyGetQHYCCDSingleFrame Big_Endian 7 0 0 0 0 0 dirty)) = 1 \<and>
   mem (snd (projr (DummyGetQHYCCDSingleFrame Big_Endian 7 0 0 0 0 0 dirty))) = mem dirty \<and>
   (0x2000 :: addr) \<notin> dest_u32 0x1000 \<union> dest_u32 0 \<union> dest_u32 0 \<union> dest_u32 0x100C \<and>
   fst (projr (DummyGetQHYCCDSingleFrame Big_Endian 7 0x1000 0 0 0x100C 0 dirty)) = 1 \<and>
   mem (snd (projr (DummyGetQHYCCDSingleFrame Big_Endian 7 0x1000 0 0 0x100C 0 dirty))) 0x2000 =
     mem dirty 0x2000 \<and>
   Write_u8 0 0 \<notin> set (drop (length (trace dirty))
     (trace (snd (projr (DummyGetQHYCCDSingleFrame Big_Endian 7 0x1000 0 0 0x100C 0 dirty)))))"
proof -
  from failure_writes_descriptors_only [of Big_Endian 7 0 0 0 0 dirty]
  obtain s1 where
    r1: "DummyGetQHYCCDSingleFrame Big_Endian 7 0 0 0 0 0 dirty = Inr (1, s1)"
    and m1: "mem s1 = mem dirty" by auto
  from failure_writes_descriptors_only [of Big_Endian 7 "0x1000" 0 0 "0x100C" dirty]
  obtain s2 evs where
    r2: "DummyGetQHYCCDSingleFrame Big_Endian 7 0x1000 0 0 0x100C 0 dirty = Inr (1, s2)"
    and t2: "trace s2 = trace dirty @ evs"
    and e2: "\<forall>a v. Write_u8 a v \<notin> set evs"
    and m2: "\<forall>a. a \<notin> dest_u32 0x1000 \<union> dest_u32 0 \<union> dest_u32 0 \<union> dest_u32 0x100C
               \<longrightarrow> mem s2 a = mem dirty a" by blast
  have out: "(0x2000 :: addr) \<notin> dest_u32 0x1000 \<union> dest_u32 0 \<union> dest_u32 0 \<union> dest_u32 0x100C"
    by (simp add: dest_u32_def span_u32_def)
  with m2 have "mem s2 0x2000 = mem dirty 0x2000" by blast
  moreover from t2 have "drop (length (trace dirty)) (trace s2) = evs" by simp
  moreover from e2 have "Write_u8 0 0 \<notin> set evs" by blast
  ultimately show ?thesis using r1 m1 r2 out by simp
qed

subsection \<open>C2: the pattern\<close>

text \<open>
  C2: for every call with a non-null buffer destination, the call returns the success
  code 0 and afterwards the byte at offset \<open>i\<close> of the buffer is \<open>i mod 256\<close>, for every
  \<open>i\<close> in [0, 32). The pattern is stored last, so this holds whatever the descriptor
  destinations are, overlapping the buffer or not.
\<close>

theorem pattern_correct:
  assumes "imgdata \<noteq> 0"
  shows "\<exists>s'. DummyGetQHYCCDSingleFrame bo handle w h bpp ch imgdata s = Inr (0, s') \<and>
              (\<forall>i<32. unat (mem s' (imgdata + of_nat i)) = i mod 256)"
proof -
  obtain s' where
    run: "DummyGetQHYCCDSingleFrame bo handle w h bpp ch imgdata s =
            Inr (if imgdata = 0 then 1 else 0, s')"
    and m: "mem s' = final_mem bo w h bpp ch imgdata (mem s)"
    by (rule DummyGetQHYCCDSingleFrame_run)
  have "unat (mem s' (imgdata + of_nat i)) = i mod 256" if "i < 32" for i
    using that assms by (simp add: m final_mem_buf unat_of_nat)
  with run assms show ?thesis by auto
qed

theorem pattern_correct_witness:
  "(0x2000 :: addr) \<noteq> 0 \<and>
   fst (projr (DummyGetQHYCCDSingleFrame Little_Endian 7 0x1000 0x1004 0x1008 0x100C 0x2000 blank)) = 0 \<and>
   unat (mem (snd (projr (DummyGetQHYCCDSingleFrame Little_Endian 7 0x1000 0x1004 0x1008 0x100C 0x2000 blank)))
           (0x2000 + 31)) = 31"
proof -
  have nz: "(0x2000 :: addr) \<noteq> 0" by simp
  from pattern_correct [OF nz, of Little_Endian 7 "0x1000" "0x1004" "0x1008" "0x100C" blank]
  obtain s' where
    "DummyGetQHYCCDSingleFrame Little_Endian 7 0x1000 0x1004 0x1008 0x100C 0x2000 blank = Inr (0, s')"
    and "\<forall>i<32. unat (mem s' (0x2000 + of_nat i)) = i mod 256" by blast
  then show ?thesis using nz by (auto dest: spec [of _ 31])
qed

subsection \<open>C3: the status code\<close>

text \<open>
  C3: every call returns, without a fault; the status code is 1 exactly when the buffer
  destination is null and 0 exactly when it is not, and it has no other value.
\<close>

theorem status_code:
  "\<exists>rc s'. DummyGetQHYCCDSingleFrame bo handle w h bpp ch imgdata s = Inr (rc, s') \<and>
     (rc = 1 \<longleftrightarrow> imgdata = 0) \<and> (rc = 0 \<longleftrightarrow> imgdata \<noteq> 0) \<and> (rc = 0 \<or> rc = 1)"
  by (simp add: DummyGetQHYCCDSingleFrame_eq)

theorem status_code_witness:
  "fst (projr (DummyGetQHYCCDSingleFrame Big_Endian 7 0 0x1004 0 0 0 blank)) = 1 \<and>
   fst (projr (DummyGetQHYCCDSingleFrame Big_Endian 7 0 0x1004 0 0 0x2000 blank)) = 0"
proof -
  from status_code [of Big_Endian 7 0 "0x1004" 0 0 0 blank]
  obtain s1 where "DummyGetQHYCCDSingleFrame Big_Endian 7 0 0x1004 0 0 0 blank = Inr (1, s1)"
    by auto
  moreover from status_code [of Big_Endian 7 0 "0x1004" 0 0 "0x2000" blank]
  obtain s2 where "DummyGetQHYCCDSingleFrame Big_Endian 7 0 0x1004 0 0 0x2000 blank = Inr (0, s2)"
    by auto
  ultimately show ?thesis by simp
qed

subsection \<open>C4: the descriptor values\<close>

text \<open>
  C4 as stated: after every call each non-null descriptor destination holds its constant.
  The code stores through the pointers one after the other, and C lets the caller pass
  the same address twice: with \<open>w\<close> and \<open>h\<close> both at address 0x1000 and a valid buffer,
  the call succeeds and the width destination holds 4, the height, not 8.
\<close>

theorem aliased_width_reads_height:
  "(0x1000 :: addr) \<noteq> 0 \<and>
   fst (projr (DummyGetQHYCCDSingleFrame Little_Endian 0 0x1000 0x1000 0 0 0x2000 blank)) = 0 \<and>
   load_u32 Little_Endian
     (mem (snd (projr (DummyGetQHYCCDSingleFrame Little_Endian 0 0x1000 0x1000 0 0 0x2000 blank))))
     0x1000 = 4 \<and>
   load_u32 Little_Endian
     (mem (snd (projr (DummyGetQHYCCDSingleFrame Little_Endian 0 0x1000 0x1000 0 0 0x2000 blank))))
     0x1000 \<noteq> 8"
  by (simp add: DummyGetQHYCCDSingleFrame_eq final_mem_def put_buf_frame dest_buf_def span_buf_iff
      load_u32_def put_u32_def u32_bytes_def bytes_u32_def blank_def zero_mem_def)

text \<open>
  C4, amended: after every call, each non-null descriptor destination whose four bytes
  are not overlapped by a destination that the call stores to later (the descriptors
  after it in the order width, height, bits per pixel, channels, then the 32 buffer
  bytes) holds its constant: width 8, height 4, bits per pixel 8, channels 1; whether
  the other destinations, the buffer included, are null or not.
\<close>

theorem descriptor_values:
  "\<exists>rc s'. DummyGetQHYCCDSingleFrame bo handle w h bpp ch imgdata s = Inr (rc, s') \<and>
     (w \<noteq> 0 \<and> span_u32 w \<inter> (dest_u32 h \<union> dest_u32 bpp \<union> dest_u32 ch \<union> dest_buf imgdata) = {}
        \<longrightarrow> load_u32 bo (mem s') w = 8) \<and>
     (h \<noteq> 0 \<and> span_u32 h \<inter> (dest_u32 bpp \<union> dest_u32 ch \<union> dest_buf imgdata) = {}
        \<longrightarrow> load_u32 bo (mem s') h = 4) \<and>
     (bpp \<noteq> 0 \<and> span_u32 bpp \<inter> (dest_u32 ch \<union> dest_buf imgdata) = {}
        \<longrightarrow> load_u32 bo (mem s') bpp = 8) \<and>
     (ch \<noteq> 0 \<and> span_u32 ch \<inter> dest_buf imgdata = {}
        \<longrightarrow> load_u32 bo (mem s') ch = 1)"
proof -
  obtain s' where
    run: "DummyGetQHYCCDSingleFrame bo handle w h bpp ch imgdata s =
            Inr (if imgdata = 0 then 1 else 0, s')"
    and m: "mem s' = final_mem bo w h bpp ch imgdata (mem s)"
    by (rule DummyGetQHYCCDSingleFrame_run)
  have "w \<noteq> 0 \<and> span_u32 w \<inter> (dest_u32 h \<union> dest_u32 bpp \<union> dest_u32 ch \<union> dest_buf imgdata) = {}
        \<longrightarrow> load_u32 bo (mem s') w = 8"
    by (simp add: m final_mem_w)
  moreover have "h \<noteq> 0 \<and> span_u32 h \<inter> (dest_u32 bpp \<union> dest_u32 ch \<union> dest_buf imgdata) = {}
        \<longrightarrow> load_u32 bo (mem s') h = 4"
    by (simp add: m final_mem_h)
  moreover have "bpp \<noteq> 0 \<and> span_u32 bpp \<inter> (dest_u32 ch \<union> dest_buf imgdata) = {}
        \<longrightarrow> load_u32 bo (mem s') bpp = 8"
    by (simp add: m final_mem_bpp)
  moreover have "ch \<noteq> 0 \<and> span_u32 ch \<inter> dest_buf imgdata = {}
        \<longrightarrow> load_u32 bo (mem s') ch = 1"
    by (simp add: m final_mem_ch)
  ultimately show ?thesis using run by blast
qed

theorem descriptor_values_witness:
  "load_u32 Big_Endian
     (mem (snd (projr (DummyGetQHYCCDSingleFrame Big_Endian 7 0x1000 0x1004 0x1008 0x100C 0x2000 dirty))))
     0x1000 = 8 \<and>
   load_u32 Big_Endian
     (mem (snd (projr (DummyGetQHYCCDSingleFrame Big_Endian 7 0x1000 0x1004 0x1008 0x100C 0x2000 dirty))))
     0x1004 = 4 \<and>
   load_u32 Big_Endian
     (mem (snd (projr (DummyGetQHYCCDSingleFrame Big_Endian 7 0x1000 0x1004 0x1008 0x100C 0x2000 dirty))))
     0x1008 = 8 \<and>
   load_u32 Big_Endian
     (mem (snd (projr (DummyGetQHYCCDSingleFrame Big_Endian 7 0x1000 0x1004 0x1008 0x100C 0x2000 dirty))))
     0x100C = 1"
proof -
  have d: "span_u32 0x1000 \<inter> (dest_u32 0x1004 \<union> dest_u32 0x1008 \<union> dest_u32 0x100C \<union> dest_buf 0x2000) = {}"
    "span_u32 0x1004 \<inter> (dest_u32 0x1008 \<union> dest_u32 0x100C \<union> dest_buf 0x2000) = {}"
    "span_u32 0x1008 \<inter> (dest_u32 0x100C \<union> dest_buf 0x2000) = {}"
    "span_u32 0x100C \<inter> dest_buf 0x2000 = {}"
    by (simp_all add: span_u32_def dest_u32_def dest_buf_def span_buf_iff)
  from descriptor_values [of Big_Endian 7 "0x1000" "0x1004" "0x1008" "0x100C" "0x2000" dirty]
  obtain rc s' where
    "DummyGetQHYCCDSingleFrame Big_Endian 7 0x1000 0x1004 0x1008 0x100C 0x2000 dirty = Inr (rc, s')"
    and "load_u32 Big_Endian (mem s') 0x1000 = 8" and "load_u32 Big_Endian (mem s') 0x1004 = 4"
    and "load_u32 Big_Endian (mem s') 0x1008 = 8" and "load_u32 Big_Endian (mem s') 0x100C = 1"
    using d by auto
  then show ?thesis by simp
qed

subsection \<open>C5: null descriptor destinations\<close>

text \<open>
  C5: a call with the four descriptor destinations null and a non-null buffer returns the
  success code 0 and stores the whole 32-byte pattern. The null destinations are skipped
  silently: after the line that logs the arguments, the trace holds the 32 pattern
  stores and nothing else, so no descriptor store and no error line.
\<close>

theorem null_descriptors_ok:
  assumes "imgdata \<noteq> 0"
  shows "\<exists>s'. DummyGetQHYCCDSingleFrame bo handle 0 0 0 0 imgdata s = Inr (0, s') \<and>
              (\<forall>i<32. unat (mem s' (imgdata + of_nat i)) = i mod 256) \<and>
              trace s' = trace s @ [Fprintf_stderr (Log_Inputs handle 0 0 0 0 imgdata)]
                           @ pattern_events imgdata"
proof -
  obtain s' where
    run: "DummyGetQHYCCDSingleFrame bo handle 0 0 0 0 imgdata s =
            Inr (if imgdata = 0 then 1 else 0, s')"
    and m: "mem s' = final_mem bo 0 0 0 0 imgdata (mem s)"
    and t: "trace s' = trace s @ [Fprintf_stderr (Log_Inputs handle 0 0 0 0 imgdata)]
                      @ descriptor_events 0 0 0 0
                      @ (if imgdata = 0 then [Fprintf_stderr Log_Imgdata_Null]
                         else pattern_events imgdata)"
    by (rule DummyGetQHYCCDSingleFrame_run)
  have "unat (mem s' (imgdata + of_nat i)) = i mod 256" if "i < 32" for i
    using that assms by (simp add: m final_mem_buf unat_of_nat)
  moreover have "trace s' = trace s @ [Fprintf_stderr (Log_Inputs handle 0 0 0 0 imgdata)]
                           @ pattern_events imgdata"
    using assms by (simp add: t descriptor_events_def descriptor_event_def)
  ultimately show ?thesis using run assms by auto
qed

theorem null_descriptors_ok_witness:
  "(0x2000 :: addr) \<noteq> 0 \<and>
   fst (projr (DummyGetQHYCCDSingleFrame Little_Endian 7 0 0 0 0 0x2000 dirty)) = 0 \<and>
   unat (mem (snd (projr (DummyGetQHYCCDSingleFrame Little_Endian 7 0 0 0 0 0x2000 dirty))) (0x2000 + 17)) = 17 \<and>
   trace (snd (projr (DummyGetQHYCCDSingleFrame Little_Endian 7 0 0 0 0 0x2000 dirty))) =
     trace dirty @ [Fprintf_stderr (Log_Inputs 7 0 0 0 0 0x2000)] @ pattern_events 0x2000"
proof -
  have nz: "(0x2000 :: addr) \<noteq> 0" by simp
  from null_descriptors_ok [OF nz, of Little_Endian 7 dirty]
  obtain s' where
    "DummyGetQHYCCDSingleFrame Little_Endian 7 0 0 0 0 0x2000 dirty = Inr (0, s')"
    and "\<forall>i<32. unat (mem s' (0x2000 + of_nat i)) = i mod 256"
    and "trace s' = trace dirty @ [Fprintf_stderr (Log_Inputs 7 0 0 0 0 0x2000)] @ pattern_events 0x2000"
    by blast
  then show ?thesis using nz by (auto dest: spec [of _ 17])
qed

subsection \<open>C6: guarded and bounded stores\<close>

text \<open>
  C6: no call faults, so no store goes through a null pointer. Every \<open>uint32_t\<close> store
  of the call goes through one of the four descriptor pointers, which is then non-null;
  every byte store goes to an offset in [0, 32) of a non-null buffer; and memory outside
  the non-null destinations is unchanged.
\<close>

theorem writes_guarded_and_bounded:
  "\<exists>rc s' evs. DummyGetQHYCCDSingleFrame bo handle w h bpp ch imgdata s = Inr (rc, s') \<and>
     trace s' = trace s @ evs \<and>
     (\<forall>p v. Write_u32 p v \<in> set evs \<longrightarrow> p \<noteq> 0 \<and> p \<in> {w, h, bpp, ch}) \<and>
     (\<forall>a v. Write_u8 a v \<in> set evs \<longrightarrow> imgdata \<noteq> 0 \<and> a \<in> span_buf imgdata) \<and>
     (\<forall>a. a \<notin> footprint w h bpp ch imgdata \<longrightarrow> mem s' a = mem s a)"
proof -
  define evs where "evs = [Fprintf_stderr (Log_Inputs handle w h bpp ch imgdata)]
       @ descriptor_events w h bpp ch
       @ (if imgdata = 0 then [Fprintf_stderr Log_Imgdata_Null] else pattern_events imgdata)"
  obtain s' where
    run: "DummyGetQHYCCDSingleFrame bo handle w h bpp ch imgdata s =
            Inr (if imgdata = 0 then 1 else 0, s')"
    and m: "mem s' = final_mem bo w h bpp ch imgdata (mem s)"
    and t: "trace s' = trace s @ evs"
    unfolding evs_def by (rule DummyGetQHYCCDSingleFrame_run)
  have "p \<noteq> 0 \<and> p \<in> {w, h, bpp, ch}" if "Write_u32 p v \<in> set evs" for p v
    using that
    by (auto simp: evs_def descriptor_events_def descriptor_event_def pattern_events_def
        split: if_splits)
  moreover have "imgdata \<noteq> 0 \<and> a \<in> span_buf imgdata" if "Write_u8 a v \<in> set evs" for a v
    using that
    by (auto simp: evs_def descriptor_events_def descriptor_event_def pattern_events_def
        span_buf_def split: if_splits)
  moreover have "mem s' a = mem s a" if "a \<notin> footprint w h bpp ch imgdata" for a
    using that by (simp add: m final_mem_frame)
  ultimately show ?thesis using run t by blast
qed

theorem writes_guarded_and_bounded_witness:
  "(0x2020 :: addr) \<notin> footprint 0x1000 0 0x1008 0 0x2000 \<and>
   mem (snd (projr (DummyGetQHYCCDSingleFrame Little_Endian 7 0x1000 0 0x1008 0 0x2000 dirty))) 0x2020 =
     mem dirty 0x2020 \<and>
   (0x1FFF :: addr) \<notin> footprint 0x1000 0 0x1008 0 0x2000 \<and>
   mem (snd (projr (DummyGetQHYCCDSingleFrame Little_Endian 7 0x1000 0 0x1008 0 0x2000 dirty))) 0x1FFF =
     mem dirty 0x1FFF \<and>
   Write_u32 0 4 \<notin> set (drop (length (trace dirty))
     (trace (snd (projr (DummyGetQHYCCDSingleFrame Little_Endian 7 0x1000 0 0x1008 0 0x2000 dirty))))) \<and>
   Write_u8 0x2020 32 \<notin> set (drop (length (trace dirty))
     (trace (snd (projr (DummyGetQHYCCDSingleFrame Little_Endian 7 0x1000 0 0x1008 0 0x2000 dirty)))))"
proof -
  have out: "(0x2020 :: addr) \<notin> footprint 0x1000 0 0x1008 0 0x2000"
    "(0x1FFF :: addr) \<notin> footprint 0x1000 0 0x1008 0 0x2000"
    by (simp_all add: footprint_def span_u32_def dest_u32_def dest_buf_def span_buf_iff)
  have past: "(0x2020 :: addr) \<notin> span_buf 0x2000"
    by (simp add: span_buf_iff)
  from writes_guarded_and_bounded [of Little_Endian 7 "0x1000" 0 "0x1008" 0 "0x2000" dirty]
  obtain rc s' evs where
    run: "DummyGetQHYCCDSingleFrame Little_Endian 7 0x1000 0 0x1008 0 0x2000 dirty = Inr (rc, s')"
    and t: "trace s' = trace dirty @ evs"
    and u32: "\<forall>p v. Write_u32 p v \<in> set evs \<longrightarrow> p \<noteq> 0 \<and> p \<in> {0x1000, 0, 0x1008, 0}"
    and u8: "\<forall>a v. Write_u8 a v \<in> set evs \<longrightarrow> (0x2000 :: addr) \<noteq> 0 \<and> a \<in> span_buf 0x2000"
    and frame: "\<forall>a. a \<notin> footprint 0x1000 0 0x1008 0 0x2000 \<longrightarrow> mem s' a = mem dirty a"
    by blast
  from u32 have "Write_u32 0 4 \<notin> set evs" by blast
  moreover from u8 past have "Write_u8 0x2020 32 \<notin> set evs" by blast
  moreover from t have "drop (length (trace dirty)) (trace s') = evs" by simp
  ultimately show ?thesis using run out frame by simp
qed

subsection \<open>C7: the address probe\<close>

text \<open>
  C7: DummyBufferAddress returns the address its argument holds, as an unsigned integer
  the same number, and 0 for the null pointer. It always returns, leaves the memory as
  it was, and its only effect is one line on \<open>stderr\<close>.
\<close>

theorem buffer_address:
  "fst (DummyBufferAddress imgdata s) = imgdata \<and>
   unat (fst (DummyBufferAddress imgdata s)) = unat imgdata \<and>
   fst (DummyBufferAddress 0 s) = 0 \<and>
   mem (snd (DummyBufferAddress imgdata s)) = mem s \<and>
   trace (snd (DummyBufferAddress imgdata s)) = trace s @ [Fprintf_stderr (Log_Buffer_Address imgdata)]"
  by (simp add: DummyBufferAddress_def fprintf_stderr_def)

theorem buffer_address_witness:
  "fst (DummyBufferAddress 0x2000 dirty) = 0x2000 \<and>
   unat (fst (DummyBufferAddress 0x2000 dirty)) = 8192 \<and>
   fst (DummyBufferAddress 0 dirty) = 0 \<and>
   mem (snd (DummyBufferAddress 0x2000 dirty)) = mem dirty"
  using buffer_address [of "0x2000" dirty] by simp

subsection \<open>C8: determinism and idempotence\<close>

text \<open>
  C8: two calls with the same arguments, started in any two states, return the same
  status code and leave the same bytes in all the destinations, hence the same pattern
  bytes and the same value at each non-null descriptor destination; and calling again
  in the state the first call returned in gives the same status code and does not
  change the memory. The state is all the call depends on: there is no hidden one.
\<close>

theorem deterministic_idempotent:
  "\<exists>rc s1' s2' s1''.
     DummyGetQHYCCDSingleFrame bo handle w h bpp ch imgdata s1 = Inr (rc, s1') \<and>
     DummyGetQHYCCDSingleFrame bo handle w h bpp ch imgdata s2 = Inr (rc, s2') \<and>
     (\<forall>a \<in> footprint w h bpp ch imgdata. mem s1' a = mem s2' a) \<and>
     (\<forall>p \<in> {w, h, bpp, ch}. p \<noteq> 0 \<longrightarrow> load_u32 bo (mem s1') p = load_u32 bo (mem s2') p) \<and>
     DummyGetQHYCCDSingleFrame bo handle w h bpp ch imgdata s1' = Inr (rc, s1'') \<and>
     mem s1'' = mem s1'"
proof -
  obtain s1' where
    run1: "DummyGetQHYCCDSingleFrame bo handle w h bpp ch imgdata s1 =
             Inr (if imgdata = 0 then 1 else 0, s1')"
    and m1: "mem s1' = final_mem bo w h bpp ch imgdata (mem s1)"
    by (rule DummyGetQHYCCDSingleFrame_run)
  obtain s2' where
    run2: "DummyGetQHYCCDSingleFrame bo handle w h bpp ch imgdata s2 =
             Inr (if imgdata = 0 then 1 else 0, s2')"
    and m2: "mem s2' = final_mem bo w h bpp ch imgdata (mem s2)"
    by (rule DummyGetQHYCCDSingleFrame_run)
  obtain s1'' where
    run3: "DummyGetQHYCCDSingleFrame bo handle w h bpp ch imgdata s1' =
             Inr (if imgdata = 0 then 1 else 0, s1'')"
    and m3: "mem s1'' = final_mem bo w h bpp ch imgdata (mem s1')"
    by (rule DummyGetQHYCCDSingleFrame_run)
  have same: "mem s1' a = mem s2' a" if "a \<in> footprint w h bpp ch imgdata" for a
    unfolding m1 m2 using that by (rule final_mem_indep)
  have "load_u32 bo (mem s1') p = load_u32 bo (mem s2') p" if "p \<in> {w, h, bpp, ch}" "p \<noteq> 0" for p
  proof (rule load_u32_cong)
    fix a
    assume "a \<in> span_u32 p"
    with that have "a \<in> footprint w h bpp ch imgdata"
      by (auto simp: footprint_def dest_u32_def)
    then show "mem s1' a = mem s2' a" by (rule same)
  qed
  moreover have "mem s1'' = mem s1'"
    by (simp add: m3 m1 final_mem_idem)
  ultimately show ?thesis using run1 run2 run3 same by blast
qed

theorem deterministic_idempotent_witness:
  "(0x2005 :: addr) \<in> footprint 0x1000 0x1002 0 0 0x2000 \<and>
   fst (projr (DummyGetQHYCCDSingleFrame Little_Endian 7 0x1000 0x1002 0 0 0x2000 blank)) =
   fst (projr (DummyGetQHYCCDSingleFrame Little_Endian 7 0x1000 0x1002 0 0 0x2000 dirty)) \<and>
   mem (snd (projr (DummyGetQHYCCDSingleFrame Little_Endian 7 0x1000 0x1002 0 0 0x2000 blank))) 0x2005 =
   mem (snd (projr (DummyGetQHYCCDSingleFrame Little_Endian 7 0x1000 0x1002 0 0 0x2000 dirty))) 0x2005 \<and>
   (0x1002 :: addr) \<in> {0x1000, 0x1002, 0, 0} \<and> (0x1002 :: addr) \<noteq> 0 \<and>
   load_u32 Little_Endian
     (mem (snd (projr (DummyGetQHYCCDSingleFrame Little_Endian 7 0x1000 0x1002 0 0 0x2000 blank)))) 0x1002 =
   load_u32 Little_Endian
     (mem (snd (projr (DummyGetQHYCCDSingleFrame Little_Endian 7 0x1000 0x1002 0 0 0x2000 dirty)))) 0x1002 \<and>
   mem (snd (projr (DummyGetQHYCCDSingleFrame Little_Endian 7 0x1000 0x1002 0 0 0x2000
          (snd (projr (DummyGetQHYCCDSingleFrame Little_Endian 7 0x1000 0x1002 0 0 0x2000 blank)))))) =
   mem (snd (projr (DummyGetQHYCCDSingleFrame Little_Endian 7 0x1000 0x1002 0 0 0x2000 blank)))"
proof -
  have inside: "(0x2005 :: addr) \<in> footprint 0x1000 0x1002 0 0 0x2000"
    by (simp add: footprint_def dest_buf_def span_buf_iff)
  have desc: "(0x1002 :: addr) \<in> {0x1000, 0x1002, 0, 0}" "(0x1002 :: addr) \<noteq> 0"
    by simp_all
  from deterministic_idempotent [of Little_Endian 7 "0x1000" "0x1002" 0 0 "0x2000" blank dirty]
  obtain rc s1' s2' s1'' where
    "DummyGetQHYCCDSingleFrame Little_Endian 7 0x1000 0x1002 0 0 0x2000 blank = Inr (rc, s1')"
    and "DummyGetQHYCCDSingleFrame Little_Endian 7 0x1000 0x1002 0 0 0x2000 dirty = Inr (rc, s2')"
    and "\<forall>a \<in> footprint 0x1000 0x1002 0 0 0x2000. mem s1' a = mem s2' a"
    and "\<forall>p \<in> {0x1000, 0x1002, 0, 0}. p \<noteq> 0 \<longrightarrow>
           load_u32 Little_Endian (mem s1') p = load_u32 Little_Endian (mem s2') p"
    and "DummyGetQHYCCDSingleFrame Little_Endian 7 0x1000 0x1002 0 0 0x2000 s1' = Inr (rc, s1'')"
    and "mem s1'' = mem s1'"
    by blast
  with inside desc show ?thesis by simp
qed

subsection \<open>C9: the handle\<close>

text \<open>
  C9: two calls that differ in the handle only, started in the same state, return the
  same status code and leave the same memory; their traces differ in the first line
  alone, the one that logs the arguments, and agree on every store after it.
\<close>

theorem handle_irrelevant:
  "\<exists>rc s1 s2 evs.
     DummyGetQHYCCDSingleFrame bo handle1 w h bpp ch imgdata s = Inr (rc, s1) \<and>
     DummyGetQHYCCDSingleFrame bo handle2 w h bpp ch imgdata s = Inr (rc, s2) \<and>
     mem s1 = mem s2 \<and>
     trace s1 = trace s @ Fprintf_stderr (Log_Inputs handle1 w h bpp ch imgdata) # evs \<and>
     trace s2 = trace s @ Fprintf_stderr (Log_Inputs handle2 w h bpp ch imgdata) # evs"
proof -
  obtain s1 where
    run1: "DummyGetQHYCCDSingleFrame bo handle1 w h bpp ch imgdata s =
             Inr (if imgdata = 0 then 1 else 0, s1)"
    and m1: "mem s1 = final_mem bo w h bpp ch imgdata (mem s)"
    and t1: "trace s1 = trace s @ [Fprintf_stderr (Log_Inputs handle1 w h bpp ch imgdata)]
                      @ descriptor_events w h bpp ch
                      @ (if imgdata = 0 then [Fprintf_stderr Log_Imgdata_Null]
                         else pattern_events imgdata)"
    by (rule DummyGetQHYCCDSingleFrame_run)
  obtain s2 where
    run2: "DummyGetQHYCCDSingleFrame bo handle2 w h bpp ch imgdata s =
             Inr (if imgdata = 0 then 1 else 0, s2)"
    and m2: "mem s2 = final_mem bo w h bpp ch imgdata (mem s)"
    and t2: "trace s2 = trace s @ [Fprintf_stderr (Log_Inputs handle2 w h bpp ch imgdata)]
                      @ descriptor_events w h bpp ch
                      @ (if imgdata = 0 then [Fprintf_stderr Log_Imgdata_Null]
                         else pattern_events imgdata)"
    by (rule DummyGetQHYCCDSingleFrame_run)
  from m1 m2 have "mem s1 = mem s2" by simp
  with run1 run2 t1 t2 show ?thesis by simp
qed

theorem handle_irrelevant_witness:
  "fst (projr (DummyGetQHYCCDSingleFrame Big_Endian 1 0x1000 0 0 0x100C 0x2000 dirty)) =
   fst (projr (DummyGetQHYCCDSingleFrame Big_Endian 2 0x1000 0 0 0x100C 0x2000 dirty)) \<and>
   mem (snd (projr (DummyGetQHYCCDSingleFrame Big_Endian 1 0x1000 0 0 0x100C 0x2000 dirty))) =
   mem (snd (projr (DummyGetQHYCCDSingleFrame Big_Endian 2 0x1000 0 0 0x100C 0x2000 dirty)))"
proof -
  from handle_irrelevant [of Big_Endian 1 "0x1000" 0 0 "0x100C" "0x2000" dirty 2]
  obtain rc s1 s2 where
    "DummyGetQHYCCDSingleFrame Big_Endian 1 0x1000 0 0 0x100C 0x2000 dirty = Inr (rc, s1)"
    and "DummyGetQHYCCDSingleFrame Big_Endian 2 0x1000 0 0 0x100C 0x2000 dirty = Inr (rc, s2)"
    and "mem s1 = mem s2"
    by blast
  then show ?thesis by simp
qed

subsection \<open>C10: descriptors on the failure path\<close>

text \<open>
  C10: in a call with a null buffer destination, the store of its constant through each
  non-null descriptor pointer (width 8, height 4, bits per pixel 8, channels 1) takes
  place, in that order, before the error line is logged and the failure code 1 is
  returned. The constants are in memory when the call returns: the channels destination,
  stored last, reads 1 whenever it is non-null, and each of the other non-null
  destinations reads its constant unless a descriptor stored after it overlaps it.
\<close>

theorem descriptors_written_on_failure:
  "\<exists>s'. DummyGetQHYCCDSingleFrame bo handle w h bpp ch 0 s = Inr (1, s') \<and>
     trace s' = trace s @ [Fprintf_stderr (Log_Inputs handle w h bpp ch 0)]
                  @ descriptor_events w h bpp ch @ [Fprintf_stderr Log_Imgdata_Null] \<and>
     mem s' = put_u32 bo ch 1 (put_u32 bo bpp 8 (put_u32 bo h 4 (put_u32 bo w 8 (mem s)))) \<and>
     (w \<noteq> 0 \<and> span_u32 w \<inter> (dest_u32 h \<union> dest_u32 bpp \<union> dest_u32 ch) = {}
        \<longrightarrow> load_u32 bo (mem s') w = 8) \<and>
     (h \<noteq> 0 \<and> span_u32 h \<inter> (dest_u32 bpp \<union> dest_u32 ch) = {}
        \<longrightarrow> load_u32 bo (mem s') h = 4) \<and>
     (bpp \<noteq> 0 \<and> span_u32 bpp \<inter> dest_u32 ch = {}
        \<longrightarrow> load_u32 bo (mem s') bpp = 8) \<and>
     (ch \<noteq> 0 \<longrightarrow> load_u32 bo (mem s') ch = 1)"
proof -
  obtain s' where
    run: "DummyGetQHYCCDSingleFrame bo handle w h bpp ch 0 s =
            Inr (if (0::addr) = 0 then 1 else 0, s')"
    and m: "mem s' = final_mem bo w h bpp ch 0 (mem s)"
    and t: "trace s' = trace s @ [Fprintf_stderr (Log_Inputs handle w h bpp ch 0)]
                      @ descriptor_events w h bpp ch
                      @ (if (0::addr) = 0 then [Fprintf_stderr Log_Imgdata_Null]
                         else pattern_events 0)"
    by (rule DummyGetQHYCCDSingleFrame_run)
  have nobuf: "dest_buf 0 = {}" by (simp add: dest_buf_def)
  from m have stores:
    "mem s' = put_u32 bo ch 1 (put_u32 bo bpp 8 (put_u32 bo h 4 (put_u32 bo w 8 (mem s))))"
    by (simp add: final_mem_def put_buf_def)
  have rw: "load_u32 bo (mem s') w = 8"
    if "w \<noteq> 0" "span_u32 w \<inter> (dest_u32 h \<union> dest_u32 bpp \<union> dest_u32 ch) = {}"
    unfolding m using that by (intro final_mem_w) (simp_all add: nobuf)
  have rh: "load_u32 bo (mem s') h = 4"
    if "h \<noteq> 0" "span_u32 h \<inter> (dest_u32 bpp \<union> dest_u32 ch) = {}"
    unfolding m using that by (intro final_mem_h) (simp_all add: nobuf)
  have rb: "load_u32 bo (mem s') bpp = 8"
    if "bpp \<noteq> 0" "span_u32 bpp \<inter> dest_u32 ch = {}"
    unfolding m using that by (intro final_mem_bpp) (simp_all add: nobuf)
  have rc: "load_u32 bo (mem s') ch = 1" if "ch \<noteq> 0"
    unfolding m using that by (intro final_mem_ch) (simp_all add: nobuf)
  from run have "DummyGetQHYCCDSingleFrame bo handle w h bpp ch 0 s = Inr (1, s')"
    by simp
  moreover from t have
    "trace s' = trace s @ [Fprintf_stderr (Log_Inputs handle w h bpp ch 0)]
                  @ descriptor_events w h bpp ch @ [Fprintf_stderr Log_Imgdata_Null]"
    by simp
  ultimately show ?thesis using stores rw rh rb rc by blast
qed

theorem descriptors_written_on_failure_witness:
  "fst (projr (DummyGetQHYCCDSingleFrame Little_Endian 7 0x1000 0x1004 0x1008 0x100C 0 dirty)) = 1 \<and>
   trace (snd (projr (DummyGetQHYCCDSingleFrame Little_Endian 7 0x1000 0x1004 0x1008 0x100C 0 dirty))) =
     [Fprintf_stderr (Log_Buffer_Address 0),
      Fprintf_stderr (Log_Inputs 7 0x1000 0x1004 0x1008 0x100C 0),
      Write_u32 0x1000 8, Write_u32 0x1004 4, Write_u32 0x1008 8, Write_u32 0x100C 1,
      Fprintf_stderr Log_Imgdata_Null] \<and>
   load_u32 Little_Endian (mem dirty) 0x1000 = 0xFFFFFFFF \<and>
   load_u32 Little_Endian
     (mem (snd (projr (DummyGetQHYCCDSingleFrame Little_Endian 7 0x1000 0x1004 0x1008 0x100C 0 dirty))))
     0x1000 = 8 \<and>
   load_u32 Little_Endian
     (mem (snd (projr (DummyGetQHYCCDSingleFrame Little_Endian 7 0x1000 0x1004 0x1008 0x100C 0 dirty))))
     0x1004 = 4 \<and>
   load_u32 Little_Endian
     (mem (snd (projr (DummyGetQHYCCDSingleFrame Little_Endian 7 0x1000 0x1004 0x1008 0x100C 0 dirty))))
     0x1008 = 8 \<and>
   load_u32 Little_Endian
     (mem (snd (projr (DummyGetQHYCCDSingleFrame Little_Endian 7 0x1000 0x1004 0x1008 0x100C 0 dirty))))
     0x100C = 1"
proof -
  have d: "(0x1000 :: addr) \<noteq> 0" "(0x1004 :: addr) \<noteq> 0" "(0x1008 :: addr) \<noteq> 0"
    "(0x100C :: addr) \<noteq> 0"
    "span_u32 0x1000 \<inter> (dest_u32 0x1004 \<union> dest_u32 0x1008 \<union> dest_u32 0x100C) = {}"
    "span_u32 0x1004 \<inter> (dest_u32 0x1008 \<union> dest_u32 0x100C) = {}"
    "span_u32 0x1008 \<inter> dest_u32 0x100C = {}"
    by (simp_all add: span_u32_def dest_u32_def)
  have before: "load_u32 Little_Endian (mem dirty) 0x1000 = 0xFFFFFFFF"
    by (simp add: load_u32_def bytes_u32_def dirty_def ones_mem_def)
  from descriptors_written_on_failure [of Little_Endian 7 "0x1000" "0x1004" "0x1008" "0x100C" dirty]
  obtain s' where
    "DummyGetQHYCCDSingleFrame Little_Endian 7 0x1000 0x1004 0x1008 0x100C 0 dirty = Inr (1, s')"
    and "trace s' = trace dirty @ [Fprintf_stderr (Log_Inputs 7 0x1000 0x1004 0x1008 0x100C 0)]
                  @ descriptor_events 0x1000 0x1004 0x1008 0x100C @ [Fprintf_stderr Log_Imgdata_Null]"
    and "load_u32 Little_Endian (mem s') 0x1000 = 8"
    and "load_u32 Little_Endian (mem s') 0x1004 = 4"
    and "load_u32 Little_Endian (mem s') 0x1008 = 8"
    and "load_u32 Little_Endian (mem s') 0x100C = 1"
    using d by auto
  with before show ?thesis
    by (simp add: descriptor_events_def descriptor_event_def dirty_def)
qed

end
